theory Spec2Isabelle
  imports Main
begin

section \<open>Image to ICO converter: the size selector and the converter\<close>

text \<open>
  The development embeds the two functions of \<^verbatim>\<open>ico_converter.py\<close> that carry the
  program's logic: \<^verbatim>\<open>convert_to_ico\<close> (lines 27-48) and the button handler
  \<^verbatim>\<open>convert\<close> (lines 62-91), together with the module-level form state they read
  (lines 154-167).
\<close>

subsection \<open>Size selection (lines 77-83 and 159-167)\<close>

text \<open>
  Line 161: the module-level list \<^verbatim>\<open>sizes = [16, 32, 48, 64, 128, 256]\<close> from which the
  check boxes are built.
\<close>

definition icon_sizes :: "int list" where
  "icon_sizes = [16, 32, 48, 64, 128, 256]"

text \<open>
  Lines 159-164: \<^verbatim>\<open>size_vars\<close> is a dict from each size to a Boolean variable, filled in
  the order of \<^verbatim>\<open>sizes\<close>, every variable initially False. A Python dict iterates in
  insertion order, so it is an association list here. The user's clicks change the values,
  never the keys.
\<close>

type_synonym size_vars = "(int \<times> bool) list"

definition initial_size_vars :: size_vars where
  "initial_size_vars = map (\<lambda>sz. (sz, False)) icon_sizes"

text \<open>
  Lines 81-83: \<^verbatim>\<open>for size, var in size_vars.items(): if var.get(): sizes.append((size, size))\<close>.
  The second argument is the list \<^verbatim>\<open>sizes\<close> built so far; the loop variable
  \<^verbatim>\<open>size\<close> is written \<open>sz\<close>.
\<close>

fun append_selected :: "size_vars \<Rightarrow> (int \<times> int) list \<Rightarrow> (int \<times> int) list" where
  "append_selected [] sizes = sizes"
| "append_selected ((sz, var) # rest) sizes =
     append_selected rest (if var then sizes @ [(sz, sz)] else sizes)"

text \<open>
  Lines 77-83: \<^verbatim>\<open>sizes = []\<close>, then the literal list when \<^verbatim>\<open>all_sizes_var.get()\<close> is
  true, the loop over \<^verbatim>\<open>size_vars\<close> otherwise.
\<close>

definition select_sizes :: "bool \<Rightarrow> size_vars \<Rightarrow> (int \<times> int) list" where
  "select_sizes all_sizes_var size_vars =
     (if all_sizes_var
      then [(16, 16), (32, 32), (48, 48), (64, 64), (128, 128), (256, 256)]
      else append_selected size_vars [])"

subsection \<open>The world the program acts on\<close>

text \<open>
  The program's effects are made explicit. A world holds the file system (a map from paths
  to file contents), the image files currently held open by the program, and the sequence
  of calls the program has made to Tkinter's message boxes and to the image library, in
  the order in which they happened.
\<close>

type_synonym path = string
type_synonym file_system = "path \<rightharpoonup> string"

datatype event =
    Showwarning string string
  | Showerror string string
  | Showinfo string string
  | Image_open path
  | Image_convert string
  | Image_save path string "(int \<times> int) list"
  | Image_close path

record world =
  files :: file_system
  open_images :: "path list"
  events :: "event list"

definition log :: "event \<Rightarrow> world \<Rightarrow> world" where
  "log ev w = w\<lparr>events := events w @ [ev]\<rparr>"

text \<open>A Python exception, with the text that \<^verbatim>\<open>str(e)\<close> gives.\<close>

datatype exn = Exception string

fun str :: "exn \<Rightarrow> string" where
  "str (Exception msg) = msg"

subsection \<open>The image library\<close>

text \<open>
  \<^verbatim>\<open>PIL.Image\<close> is not part of the repository, so the four operations that
  \<^verbatim>\<open>convert_to_ico\<close> uses are parameters of the model. Each may raise.
  \<^item> \<open>image_open fs p\<close> is \<^verbatim>\<open>Image.open(p)\<close>: it reads the file system and returns
    the image or raises;
  \<^item> \<open>image_mode img\<close> is the attribute \<^verbatim>\<open>img.mode\<close>;
  \<^item> \<open>image_convert img m\<close> is \<^verbatim>\<open>img.convert(m)\<close>: a new image in memory, or an
    exception;
  \<^item> \<open>image_save img fs p fmt sizes\<close> is \<^verbatim>\<open>img.save(p, format=fmt, sizes=sizes)\<close>: it
    returns the file system as the call leaves it, and the exception if it raised.
\<close>

record 'img image_library =
  image_open :: "file_system \<Rightarrow> path \<Rightarrow> exn + 'img"
  image_mode :: "'img \<Rightarrow> string"
  image_convert :: "'img \<Rightarrow> string \<Rightarrow> exn + 'img"
  image_save :: "'img \<Rightarrow> file_system \<Rightarrow> path \<Rightarrow> string \<Rightarrow> (int \<times> int) list
                   \<Rightarrow> file_system \<times> exn option"

subsection \<open>\<^verbatim>\<open>convert_to_ico\<close> (lines 27-48)\<close>

text \<open>
  Lines 39-40: \<^verbatim>\<open>if img.mode != 'RGBA': img = img.convert('RGBA')\<close>. The result is the
  world with the call logged and the new binding of \<^verbatim>\<open>img\<close>, or the exception.
\<close>

definition ensure_rgba :: "'img image_library \<Rightarrow> world \<Rightarrow> 'img \<Rightarrow> world \<times> (exn + 'img)" where
  "ensure_rgba lib w img =
     (if image_mode lib img \<noteq> ''RGBA''
      then (log (Image_convert ''RGBA'') w, image_convert lib img ''RGBA'')
      else (w, Inr img))"

text \<open>
  Lines 38-43, the body of the \<^verbatim>\<open>with\<close> statement: the mode check, then
  \<^verbatim>\<open>img.save(output_path, format='ICO', sizes=sizes)\<close>. The result is the world the body
  leaves and the exception that ended it, if any.
\<close>

definition with_body ::
  "'img image_library \<Rightarrow> world \<Rightarrow> 'img \<Rightarrow> path \<Rightarrow> (int \<times> int) list \<Rightarrow> world \<times> exn option" where
  "with_body lib w img0 output_path sizes =
     (case ensure_rgba lib w img0 of
        (w1, Inl e) \<Rightarrow> (w1, Some e)
      | (w1, Inr img) \<Rightarrow>
          (case image_save lib img (files w1) output_path ''ICO'' sizes of
             (fs, r) \<Rightarrow> (log (Image_save output_path ''ICO'' sizes) (w1\<lparr>files := fs\<rparr>), r)))"

text \<open>
  Entering the \<^verbatim>\<open>with\<close> statement holds the opened image; leaving it, normally or by an
  exception, calls \<^verbatim>\<open>__exit__\<close> on the object that \<^verbatim>\<open>Image.open\<close> returned, which
  closes it.
\<close>

definition enter :: "path \<Rightarrow> world \<Rightarrow> world" where
  "enter p w = w\<lparr>open_images := p # open_images w\<rparr>"

definition exit :: "path \<Rightarrow> world \<Rightarrow> world" where
  "exit p w = log (Image_close p) (w\<lparr>open_images := remove1 p (open_images w)\<rparr>)"

text \<open>Line 47: \<^verbatim>\<open>messagebox.showerror("Error", f"An error occurred: {str(e)}")\<close>.\<close>

definition report :: "exn \<Rightarrow> world \<Rightarrow> world" where
  "report e w = log (Showerror ''Error'' (''An error occurred: '' @ str e)) w"

text \<open>
  Lines 36-48. An exception of \<^verbatim>\<open>Image.open\<close> reaches the handler before the
  \<^verbatim>\<open>with\<close> statement is entered; an exception of the body reaches it after
  \<^verbatim>\<open>__exit__\<close> has run. The handler shows the error and returns False; otherwise the
  function returns True.
\<close>

definition convert_to_ico ::
  "'img image_library \<Rightarrow> world \<Rightarrow> path \<Rightarrow> path \<Rightarrow> (int \<times> int) list \<Rightarrow> world \<times> bool" where
  "convert_to_ico lib w input_path output_path sizes =
     (case image_open lib (files w) input_path of
        Inl e \<Rightarrow> (report e (log (Image_open input_path) w), False)
      | Inr img0 \<Rightarrow>
          (case with_body lib (enter input_path (log (Image_open input_path) w))
                  img0 output_path sizes of
             (w2, Some e) \<Rightarrow> (report e (exit input_path w2), False)
           | (w2, None) \<Rightarrow> (exit input_path w2, True)))"

subsection \<open>The button handler \<^verbatim>\<open>convert\<close> (lines 62-91)\<close>

text \<open>
  What the handler reads: the text of the input entry (line 67), the path that the save
  dialog returns, empty when the user cancels it (line 72), the "All Sizes" variable and
  the dict of size variables.
\<close>

record form =
  input_entry :: string
  asksaveasfilename :: string
  all_sizes_var :: bool
  size_vars :: size_vars

text \<open>
  Lines 67-91: the check of the input path (with a warning), the check of the save
  dialog's result (a bare \<^verbatim>\<open>return\<close>), the size selection and its check (with a
  warning), then the call of \<^verbatim>\<open>convert_to_ico\<close> and the success message when it
  returns True.
\<close>

definition convert :: "'img image_library \<Rightarrow> form \<Rightarrow> world \<Rightarrow> world" where
  "convert lib f w =
     (let input_path = input_entry f in
      if input_path = [] then log (Showwarning ''Warning'' ''Please select an input file.'') w
      else
        let output_path = asksaveasfilename f in
        if output_path = [] then w
        else
          let sizes = select_sizes (all_sizes_var f) (size_vars f) in
          if sizes = []
          then log (Showwarning ''Warning'' ''Please select at least one icon size.'') w
          else
            (case convert_to_ico lib w input_path output_path sizes of
               (w', True) \<Rightarrow>
                 log (Showinfo ''Success''
                        (''Successfully converted '' @ input_path @ '' to '' @ output_path)) w'
             | (w', False) \<Rightarrow> w'))"

subsection \<open>Observing a run\<close>

text \<open>The calls made between an earlier world and a later one.\<close>

definition new_events :: "world \<Rightarrow> world \<Rightarrow> event list" where
  "new_events w w' = drop (length (events w)) (events w')"

text \<open>
  The calls that only \<^verbatim>\<open>convert_to_ico\<close> makes. Its first action is always
  \<^verbatim>\<open>Image.open\<close>, so a run of the handler with none of them is a run that never
  invoked the converter.
\<close>

fun library_call :: "event \<Rightarrow> bool" where
  "library_call (Image_open p) = True"
| "library_call (Image_convert m) = True"
| "library_call (Image_save p fmt sizes) = True"
| "library_call (Image_close p) = True"
| "library_call (Showwarning t m) = False"
| "library_call (Showerror t m) = False"
| "library_call (Showinfo t m) = False"

text \<open>
  An assumption on the library that some properties need: \<^verbatim>\<open>img.save(p, ...)\<close> changes
  no file other than the one at \<open>p\<close>. The file system is keyed by path strings, so the
  assumption rules out a second string that names the file at \<open>p\<close>.
\<close>

definition save_writes_only_its_path :: "'img image_library \<Rightarrow> bool" where
  "save_writes_only_its_path lib =
     (\<forall>img fs p fmt sizes q. q \<noteq> p \<longrightarrow> fst (image_save lib img fs p fmt sizes) q = fs q)"

subsection \<open>Concrete libraries, worlds and forms\<close>

text \<open>
  Small instances of the library, to run the model on. For the first three, an image is
  its mode and its pixel data. They open a file when it exists and starts with \<open>PNG\<close>,
  in mode RGBA when it starts with \<open>PNGA\<close> and in mode RGB otherwise.
  \<^item> \<open>simple_library\<close> converts by changing the mode and saves by writing the whole
    encoded file at the given path.
  \<^item> \<open>failing_save_library\<close> is a library whose \<^verbatim>\<open>save\<close> opens the destination for
    writing, which creates it or empties it, and whose encoder then raises.
  \<^item> \<open>failing_convert_library\<close> is a library whose \<^verbatim>\<open>convert\<close> raises.
\<close>

definition simple_open :: "file_system \<Rightarrow> path \<Rightarrow> exn + (string \<times> string)" where
  "simple_open fs p =
     (case fs p of
        None \<Rightarrow> Inl (Exception ''No such file or directory'')
      | Some d \<Rightarrow>
          if take 3 d = ''PNG''
          then Inr (if take 4 d = ''PNGA'' then ''RGBA'' else ''RGB'', drop 3 d)
          else Inl (Exception ''cannot identify image file''))"

definition simple_library :: "(string \<times> string) image_library" where
  "simple_library =
     \<lparr>image_open = simple_open,
      image_mode = fst,
      image_convert = (\<lambda>img m. Inr (m, snd img)),
      image_save = (\<lambda>img fs p fmt sizes. (fs(p \<mapsto> fmt @ snd img), None))\<rparr>"

definition failing_save_library :: "(string \<times> string) image_library" where
  "failing_save_library =
     \<lparr>image_open = simple_open,
      image_mode = fst,
      image_convert = (\<lambda>img m. Inr (m, snd img)),
      image_save = (\<lambda>img fs p fmt sizes. (fs(p \<mapsto> []), Some (Exception ''encoder error'')))\<rparr>"

definition failing_convert_library :: "(string \<times> string) image_library" where
  "failing_convert_library =
     \<lparr>image_open = simple_open,
      image_mode = fst,
      image_convert = (\<lambda>img m. Inl (Exception ''conversion not supported'')),
      image_save = (\<lambda>img fs p fmt sizes. (fs(p \<mapsto> fmt @ snd img), None))\<rparr>"


definition world0 :: world where
  "world0 =
     \<lparr>files = [''photo.png'' \<mapsto> ''PNGabc'', ''logo.png'' \<mapsto> ''PNGAxyz'',
               ''notes.txt'' \<mapsto> ''hello'', ''old.ico'' \<mapsto> ''ICOold''],
      open_images = [],
      events = []\<rparr>"

definition form0 :: form where
  "form0 =
     \<lparr>input_entry = ''photo.png'',
      asksaveasfilename = ''icon.ico'',
      all_sizes_var = False,
      size_vars = initial_size_vars\<rparr>"

text \<open>
  The world holds two images, a text file and an icon written earlier. In \<open>form0\<close> the
  user has chosen an input file and an output file, has cleared "All Sizes" and has ticked
  no size. The next two
  forms differ from it in one respect each: no input file chosen; the save dialog
  cancelled (with "All Sizes" set).
\<close>

definition no_input_form :: form where
  "no_input_form = form0\<lparr>input_entry := []\<rparr>"

definition cancelled_form :: form where
  "cancelled_form = form0\<lparr>asksaveasfilename := [], all_sizes_var := True\<rparr>"

text \<open>
  A state of the size check boxes that the user can reach: 16, 48 and 256 ticked.
\<close>

definition ticked_16_48_256 :: size_vars where
  "ticked_16_48_256 =
     [(16, True), (32, False), (48, True), (64, False), (128, False), (256, True)]"

section \<open>Properties of the size selector\<close>

lemma append_selected_eq:
  "append_selected sv acc = acc @ map (\<lambda>p. (fst p, fst p)) (filter snd sv)"
  by (induction sv acc rule: append_selected.induct) simp_all

text \<open>
  Claim C1. With the "all sizes" flag set, the selector returns exactly the six canonical
  square pairs (16,16), (32,32), (48,48), (64,64), (128,128), (256,256), whatever the
  individual size flags are.
\<close>

theorem select_sizes_all:
  "select_sizes True sv =
     [(16, 16), (32, 32), (48, 48), (64, 64), (128, 128), (256, 256)]"
  by (simp add: select_sizes_def)

lemma select_sizes_False:
  "select_sizes False sv = map (\<lambda>p. (fst p, fst p)) (filter snd sv)"
  by (simp add: select_sizes_def append_selected_eq)

lemma sorted_distinct_icon_sizes: "sorted icon_sizes \<and> distinct icon_sizes"
  by (simp add: icon_sizes_def)

lemma selected_keys:
  assumes "map fst sv = icon_sizes"
  shows "map fst (filter snd sv) = sorted_list_of_set {s. (s, True) \<in> set sv}"
proof -
  have s: "sorted (map fst (filter snd sv))"
    using assms sorted_distinct_icon_sizes by (simp add: sorted_filter)
  have d: "distinct (map fst (filter snd sv))"
    using assms sorted_distinct_icon_sizes by (simp add: distinct_map_filter)
  have "set (map fst (filter snd sv)) = {s. (s, True) \<in> set sv}"
    by force
  with s d show ?thesis
    using sorted_list_of_set.idem_if_sorted_distinct by metis
qed

lemma ticked_keys: "map fst ticked_16_48_256 = icon_sizes"
  by (simp add: ticked_16_48_256_def icon_sizes_def)

lemma ticked_selected:
  "select_sizes False ticked_16_48_256 = [(16, 16), (48, 48), (256, 256)]"
  by (simp add: ticked_16_48_256_def select_sizes_def)

text \<open>
  Claim C2. With the "all sizes" flag false, and the size variables keyed by the candidate
  sizes 16, 32, 48, 64, 128, 256 as lines 159-164 build them, the selector returns exactly
  the pairs (s, s) for the sizes s whose flag is true, in ascending order, and nothing
  else. The set S of the claim is the set of sizes whose variable is true.
\<close>

theorem select_sizes_individual:
  assumes "map fst sv = icon_sizes"
  shows "select_sizes False sv =
           map (\<lambda>s. (s, s)) (sorted_list_of_set {s. (s, True) \<in> set sv})"
  using selected_keys [OF assms, symmetric]
  by (simp add: select_sizes_False comp_def)

theorem select_sizes_individual_witness:
  "map fst ticked_16_48_256 = icon_sizes
   \<and> select_sizes False ticked_16_48_256 = [(16, 16), (48, 48), (256, 256)]
   \<and> map (\<lambda>s. (s, s)) (sorted_list_of_set {s. (s, True) \<in> set ticked_16_48_256})
       = [(16, 16), (48, 48), (256, 256)]"
  using ticked_keys ticked_selected select_sizes_individual [OF ticked_keys]
  by simp

text \<open>
  Claim C9. Whatever the "all sizes" flag, every pair in the list the selector returns is
  square, with its side one of 16, 32, 48, 64, 128, 256, and no pair occurs twice. The
  size variables are keyed by the candidate sizes, as lines 159-164 build them.
\<close>

theorem select_sizes_square_canonical:
  assumes "map fst sv = icon_sizes"
  shows "(\<forall>p \<in> set (select_sizes a sv).
            fst p = snd p \<and> fst p \<in> {16, 32, 48, 64, 128, 256})
         \<and> distinct (select_sizes a sv)"
proof (cases a)
  case True
  then show ?thesis by (simp add: select_sizes_def)
next
  case False
  have "\<forall>p \<in> set sv. fst p \<in> set (map fst sv)"
    by simp
  then have "\<forall>p \<in> set sv. fst p \<in> set icon_sizes"
    by (simp only: assms)
  then have m: "\<forall>p \<in> set (filter snd sv). fst p \<in> {16, 32, 48, 64, 128, 256}"
    by (simp add: icon_sizes_def)
  have "distinct (map fst (filter snd sv))"
    using assms sorted_distinct_icon_sizes by (simp add: distinct_map_filter)
  then have "distinct (map (\<lambda>p. (fst p, fst p)) (filter snd sv))"
    by (simp add: distinct_map inj_on_def)
  with m False show ?thesis
    by (auto simp: select_sizes_False)
qed

theorem select_sizes_square_canonical_witness:
  "map fst ticked_16_48_256 = icon_sizes
   \<and> list_all (\<lambda>p. fst p = snd p \<and> fst p \<in> {16, 32, 48, 64, 128, 256})
        (select_sizes False ticked_16_48_256)
   \<and> distinct (select_sizes False ticked_16_48_256)
   \<and> select_sizes False ticked_16_48_256 \<noteq> []"
  using ticked_keys ticked_selected
    select_sizes_square_canonical [OF ticked_keys, of False]
  by (simp add: list_all_iff)

section \<open>Properties of the converter\<close>

subsection \<open>The three ways a run of \<^verbatim>\<open>convert_to_ico\<close> can go\<close>

lemmas run_defs =
  convert_to_ico_def with_body_def ensure_rgba_def enter_def exit_def report_def log_def

lemma convert_to_ico_open_raises:
  assumes "image_open lib (files w) input_path = Inl e"
  shows "convert_to_ico lib w input_path output_path sizes =
           (w\<lparr>events := events w @
                [Image_open input_path,
                 Showerror ''Error'' (''An error occurred: '' @ str e)]\<rparr>, False)"
  using assms by (simp add: run_defs)

lemma convert_to_ico_convert_raises:
  assumes "image_open lib (files w) input_path = Inr img0"
    and "image_mode lib img0 \<noteq> ''RGBA''"
    and "image_convert lib img0 ''RGBA'' = Inl e"
  shows "convert_to_ico lib w input_path output_path sizes =
           (w\<lparr>events := events w @
                [Image_open input_path, Image_convert ''RGBA'', Image_close input_path,
                 Showerror ''Error'' (''An error occurred: '' @ str e)]\<rparr>, False)"
  using assms by (simp add: run_defs)

lemma ensure_rgba_result:
  "snd (ensure_rgba lib w img0) =
     (if image_mode lib img0 \<noteq> ''RGBA'' then image_convert lib img0 ''RGBA'' else Inr img0)"
  by (simp add: ensure_rgba_def)

lemma convert_to_ico_saves:
  assumes "image_open lib (files w) input_path = Inr img0"
    and "snd (ensure_rgba lib w img0) = Inr img"
    and "image_save lib img (files w) output_path ''ICO'' sizes = (fs, r)"
  shows "convert_to_ico lib w input_path output_path sizes =
           (w\<lparr>files := fs,
              events := events w @ [Image_open input_path]
                @ (if image_mode lib img0 \<noteq> ''RGBA'' then [Image_convert ''RGBA''] else [])
                @ [Image_save output_path ''ICO'' sizes, Image_close input_path]
                @ (case r of None \<Rightarrow> []
                   | Some e \<Rightarrow> [Showerror ''Error'' (''An error occurred: '' @ str e)])\<rparr>,
            r = None)"
  using assms by (auto simp add: run_defs split: if_splits option.splits)

lemmas run_simps =
  convert_to_ico_open_raises convert_to_ico_convert_raises convert_to_ico_saves

lemma convert_to_ico_cases:
  obtains (open_raises) e where "image_open lib (files w) input_path = Inl e"
  | (convert_raises) img0 e where "image_open lib (files w) input_path = Inr img0"
      "image_mode lib img0 \<noteq> ''RGBA''" "image_convert lib img0 ''RGBA'' = Inl e"
  | (saves) img0 img fs r where "image_open lib (files w) input_path = Inr img0"
      "snd (ensure_rgba lib w img0) = Inr img"
      "image_save lib img (files w) output_path ''ICO'' sizes = (fs, r)"
proof (cases "image_open lib (files w) input_path")
  case (Inl e)
  then show ?thesis by (rule open_raises)
next
  case (Inr img0)
  show ?thesis
  proof (cases "snd (ensure_rgba lib w img0)")
    case (Inl e)
    with Inr show ?thesis
      by (auto simp: ensure_rgba_result split: if_splits intro: convert_raises)
  next
    case r: (Inr img)
    obtain fs r' where "image_save lib img (files w) output_path ''ICO'' sizes = (fs, r')"
      by (cases "image_save lib img (files w) output_path ''ICO'' sizes")
    with Inr r show ?thesis by (rule saves)
  qed
qed

text \<open>Every run of the converter begins with the call of \<^verbatim>\<open>Image.open\<close>.\<close>

lemma convert_to_ico_starts_with_open:
  "\<exists>evs. new_events w (fst (convert_to_ico lib w input_path output_path sizes)) =
           Image_open input_path # evs"
  by (cases rule: convert_to_ico_cases [where lib = lib and w = w
        and input_path = input_path and output_path = output_path and sizes = sizes])
     (simp_all add: run_simps new_events_def)

lemma convert_to_ico_count_close:
  assumes "image_open lib (files w) input_path = Inr img0"
  shows "count_list (new_events w (fst (convert_to_ico lib w input_path output_path sizes)))
           (Image_close input_path) = 1"
proof (cases rule: convert_to_ico_cases [where lib = lib and w = w
        and input_path = input_path and output_path = output_path and sizes = sizes])
  case (open_raises e)
  with assms show ?thesis by simp
next
  case (convert_raises i e)
  then show ?thesis by (simp add: run_simps new_events_def)
next
  case (saves i img fs r)
  then show ?thesis
    by (simp add: convert_to_ico_saves [OF saves] new_events_def split: option.splits)
qed

subsection \<open>Evaluating the examples\<close>

lemmas example_defs =
  simple_library_def failing_save_library_def failing_convert_library_def simple_open_def
  world0_def form0_def initial_size_vars_def icon_sizes_def no_input_form_def
  cancelled_form_def

lemmas eval_defs = example_defs run_defs new_events_def

lemma open_photo:
  "image_open simple_library (files world0) ''photo.png'' = Inr (''RGB'', ''abc'')
   \<and> image_open failing_save_library (files world0) ''photo.png'' = Inr (''RGB'', ''abc'')
   \<and> image_open failing_convert_library (files world0) ''photo.png'' = Inr (''RGB'', ''abc'')"
  by (simp add: example_defs)

lemma simple_library_frame: "save_writes_only_its_path simple_library"
  by (simp add: save_writes_only_its_path_def simple_library_def)

subsection \<open>Failure of a conversion\<close>

text \<open>
  Claim C4, as the specification states it: whenever the conversion fails, the converter
  returns failure, reports the error, and leaves no partially written or corrupt file at
  the destination. The last part does not hold of the code. With a library whose
  \<^verbatim>\<open>save\<close> opens the destination for writing and then fails in its encoder, the
  conversion of \<open>photo.png\<close> over the existing icon \<open>old.ico\<close> returns False and leaves
  \<open>old.ico\<close> empty: \<^verbatim>\<open>convert_to_ico\<close> neither writes through a temporary file nor
  restores or removes the destination in its handler.
\<close>

theorem convert_to_ico_failure_counterexample:
  "snd (convert_to_ico failing_save_library world0 ''photo.png'' ''old.ico'' [(16, 16)]) = False
   \<and> files world0 ''old.ico'' = Some ''ICOold''
   \<and> files (fst (convert_to_ico failing_save_library world0 ''photo.png'' ''old.ico''
                   [(16, 16)])) ''old.ico'' = Some []"
  by (simp add: eval_defs)

text \<open>
  Claim C4, amended. A run of the converter fails exactly when \<^verbatim>\<open>Image.open\<close>, the
  conversion to RGBA or \<^verbatim>\<open>save\<close> raises. In each case the converter returns False and
  the last thing it does is to show the error dialog "An error occurred: " followed by the
  text of that exception. When opening or converting raises, the world is otherwise
  unchanged, so no file is touched. When \<^verbatim>\<open>save\<close> raises, the file system is exactly
  what the library's \<^verbatim>\<open>save\<close> left: the destination is intact only if the library's
  own \<^verbatim>\<open>save\<close> leaves it so.
\<close>

theorem convert_to_ico_failure:
  "(image_open lib (files w) input_path = Inl e \<longrightarrow>
      convert_to_ico lib w input_path output_path sizes =
        (w\<lparr>events := events w @
             [Image_open input_path,
              Showerror ''Error'' (''An error occurred: '' @ str e)]\<rparr>, False))
   \<and> (image_open lib (files w) input_path = Inr img0 \<and> image_mode lib img0 \<noteq> ''RGBA''
        \<and> image_convert lib img0 ''RGBA'' = Inl e \<longrightarrow>
      convert_to_ico lib w input_path output_path sizes =
        (w\<lparr>events := events w @
             [Image_open input_path, Image_convert ''RGBA'', Image_close input_path,
              Showerror ''Error'' (''An error occurred: '' @ str e)]\<rparr>, False))
   \<and> (image_open lib (files w) input_path = Inr img0
        \<and> snd (ensure_rgba lib w img0) = Inr img
        \<and> image_save lib img (files w) output_path ''ICO'' sizes = (fs, Some e) \<longrightarrow>
      snd (convert_to_ico lib w input_path output_path sizes) = False
      \<and> files (fst (convert_to_ico lib w input_path output_path sizes)) = fs
      \<and> last (events (fst (convert_to_ico lib w input_path output_path sizes))) =
          Showerror ''Error'' (''An error occurred: '' @ str e))
   \<and> (\<not> snd (convert_to_ico lib w input_path output_path sizes) \<longrightarrow>
        (\<exists>x. image_open lib (files w) input_path = Inl x)
        \<or> (\<exists>i x. image_open lib (files w) input_path = Inr i
              \<and> image_mode lib i \<noteq> ''RGBA'' \<and> image_convert lib i ''RGBA'' = Inl x)
        \<or> (\<exists>i j fs' x. image_open lib (files w) input_path = Inr i
              \<and> snd (ensure_rgba lib w i) = Inr j
              \<and> image_save lib j (files w) output_path ''ICO'' sizes = (fs', Some x)))"
proof -
  have "\<not> snd (convert_to_ico lib w input_path output_path sizes) \<Longrightarrow>
        (\<exists>x. image_open lib (files w) input_path = Inl x)
        \<or> (\<exists>i x. image_open lib (files w) input_path = Inr i
              \<and> image_mode lib i \<noteq> ''RGBA'' \<and> image_convert lib i ''RGBA'' = Inl x)
        \<or> (\<exists>i j fs' x. image_open lib (files w) input_path = Inr i
              \<and> snd (ensure_rgba lib w i) = Inr j
              \<and> image_save lib j (files w) output_path ''ICO'' sizes = (fs', Some x))"
  proof (cases rule: convert_to_ico_cases [where lib = lib and w = w
        and input_path = input_path and output_path = output_path and sizes = sizes])
    case (open_raises e)
    then show ?thesis by blast
  next
    case (convert_raises img0 e)
    then show ?thesis by blast
  next
    case (saves img0 img fs r)
    assume "\<not> snd (convert_to_ico lib w input_path output_path sizes)"
    with saves have "r \<noteq> None"
      by (simp add: convert_to_ico_saves)
    then obtain x where "r = Some x" by blast
    with saves show ?thesis by blast
  qed
  then show ?thesis
    by (simp add: run_simps)
qed

theorem convert_to_ico_failure_witness:
  "image_open simple_library (files world0) ''notes.txt'' =
     Inl (Exception ''cannot identify image file'')
   \<and> convert_to_ico simple_library world0 ''notes.txt'' ''icon.ico'' [(16, 16)] =
       (world0\<lparr>events :=
          [Image_open ''notes.txt'',
           Showerror ''Error'' ''An error occurred: cannot identify image file'']\<rparr>, False)
   \<and> image_open failing_convert_library (files world0) ''photo.png'' = Inr (''RGB'', ''abc'')
   \<and> image_convert failing_convert_library (''RGB'', ''abc'') ''RGBA'' =
       Inl (Exception ''conversion not supported'')
   \<and> convert_to_ico failing_convert_library world0 ''photo.png'' ''icon.ico'' [(16, 16)] =
       (world0\<lparr>events :=
          [Image_open ''photo.png'', Image_convert ''RGBA'', Image_close ''photo.png'',
           Showerror ''Error'' ''An error occurred: conversion not supported'']\<rparr>, False)
   \<and> image_save failing_save_library (''RGBA'', ''abc'') (files world0) ''icon.ico'' ''ICO''
         [(16, 16)] = ((files world0)(''icon.ico'' \<mapsto> []), Some (Exception ''encoder error''))
   \<and> snd (convert_to_ico failing_save_library world0 ''photo.png'' ''icon.ico'' [(16, 16)])
       = False
   \<and> files (fst (convert_to_ico failing_save_library world0 ''photo.png'' ''icon.ico''
                   [(16, 16)])) = (files world0)(''icon.ico'' \<mapsto> [])
   \<and> last (events (fst (convert_to_ico failing_save_library world0 ''photo.png'' ''icon.ico''
                   [(16, 16)]))) = Showerror ''Error'' ''An error occurred: encoder error''"
proof -
  have o1: "image_open simple_library (files world0) ''notes.txt'' =
              Inl (Exception ''cannot identify image file'')"
    by (simp add: example_defs)
  have o2: "image_mode failing_convert_library (''RGB'', ''abc'') \<noteq> ''RGBA''
            \<and> image_convert failing_convert_library (''RGB'', ''abc'') ''RGBA'' =
              Inl (Exception ''conversion not supported'')"
    by (simp add: example_defs)
  have o3: "snd (ensure_rgba failing_save_library world0 (''RGB'', ''abc'')) =
              Inr (''RGBA'', ''abc'')
            \<and> image_save failing_save_library (''RGBA'', ''abc'') (files world0) ''icon.ico''
                ''ICO'' [(16, 16)] =
              ((files world0)(''icon.ico'' \<mapsto> []), Some (Exception ''encoder error''))"
    by (simp add: example_defs ensure_rgba_def)
  have e: "events world0 = []"
    by (simp add: world0_def)
  from o1 o2 o3 e open_photo
    convert_to_ico_failure [where lib = simple_library and w = world0
      and input_path = "''notes.txt''" and output_path = "''icon.ico''"
      and sizes = "[(16, 16)]" and e = "Exception ''cannot identify image file''"]
    convert_to_ico_failure [where lib = failing_convert_library and w = world0
      and input_path = "''photo.png''" and output_path = "''icon.ico''"
      and sizes = "[(16, 16)]" and e = "Exception ''conversion not supported''"
      and ?img0.0 = "(''RGB'', ''abc'')"]
    convert_to_ico_failure [where lib = failing_save_library and w = world0
      and input_path = "''photo.png''" and output_path = "''icon.ico''"
      and sizes = "[(16, 16)]" and e = "Exception ''encoder error''"
      and ?img0.0 = "(''RGB'', ''abc'')" and img = "(''RGBA'', ''abc'')"
      and fs = "(files world0)(''icon.ico'' \<mapsto> [])"]
  show ?thesis
    by simp
qed

subsection \<open>The order of the library calls\<close>





subsection \<open>The opened image is released\<close>

text \<open>
  Claim C8. When the converter returns, with True or with False, the program holds the
  same open images as before the call: the image that \<^verbatim>\<open>Image.open\<close> acquired has been
  released. Whenever \<^verbatim>\<open>Image.open\<close> succeeded, the run closes that image exactly once.
\<close>

theorem convert_to_ico_releases:
  "open_images (fst (convert_to_ico lib w input_path output_path sizes)) = open_images w
   \<and> (image_open lib (files w) input_path = Inr img0 \<longrightarrow>
        count_list (new_events w (fst (convert_to_ico lib w input_path output_path sizes)))
          (Image_close input_path) = 1)"
proof -
  have "open_images (fst (convert_to_ico lib w input_path output_path sizes)) = open_images w"
    by (cases rule: convert_to_ico_cases [where lib = lib and w = w
          and input_path = input_path and output_path = output_path and sizes = sizes])
       (simp_all add: run_simps)
  then show ?thesis
    by (simp add: convert_to_ico_count_close)
qed

theorem convert_to_ico_releases_witness:
  "image_open simple_library (files world0) ''photo.png'' = Inr (''RGB'', ''abc'')
   \<and> snd (convert_to_ico simple_library world0 ''photo.png'' ''icon.ico'' [(32, 32)]) = True
   \<and> open_images (fst (convert_to_ico simple_library world0 ''photo.png'' ''icon.ico''
                         [(32, 32)])) = []
   \<and> count_list (new_events world0 (fst (convert_to_ico simple_library world0 ''photo.png''
                    ''icon.ico'' [(32, 32)]))) (Image_close ''photo.png'') = 1
   \<and> image_open failing_save_library (files world0) ''photo.png'' = Inr (''RGB'', ''abc'')
   \<and> snd (convert_to_ico failing_save_library world0 ''photo.png'' ''icon.ico'' [(32, 32)])
       = False
   \<and> open_images (fst (convert_to_ico failing_save_library world0 ''photo.png'' ''icon.ico''
                         [(32, 32)])) = []
   \<and> count_list (new_events world0 (fst (convert_to_ico failing_save_library world0
                    ''photo.png'' ''icon.ico'' [(32, 32)]))) (Image_close ''photo.png'') = 1"
proof -
  have r1: "snd (convert_to_ico simple_library world0 ''photo.png'' ''icon.ico'' [(32, 32)])
              = True"
    by (simp add: eval_defs)
  have r2: "snd (convert_to_ico failing_save_library world0 ''photo.png'' ''icon.ico''
              [(32, 32)]) = False"
    by (simp add: eval_defs)
  have h: "open_images world0 = []"
    by (simp add: world0_def)
  from open_photo r1 r2 h
    convert_to_ico_releases [where lib = simple_library and w = world0
      and input_path = "''photo.png''" and output_path = "''icon.ico''"
      and sizes = "[(32, 32)]" and ?img0.0 = "(''RGB'', ''abc'')"]
    convert_to_ico_releases [where lib = failing_save_library and w = world0
      and input_path = "''photo.png''" and output_path = "''icon.ico''"
      and sizes = "[(32, 32)]" and ?img0.0 = "(''RGB'', ''abc'')"]
  show ?thesis
    by simp
qed

subsection \<open>Which files a conversion can change\<close>

text \<open>
  Claim C10, as stated: the source file at the input path is only read, never written.
  This fails when the output path is the input path, which \<^verbatim>\<open>convert_to_ico\<close> accepts
  and the save dialog can return: the successful conversion of \<open>photo.png\<close> to
  \<open>photo.png\<close> replaces the source image by the icon.
\<close>

theorem convert_to_ico_writes_only_output_counterexample:
  "files world0 ''photo.png'' = Some ''PNGabc''
   \<and> snd (convert_to_ico simple_library world0 ''photo.png'' ''photo.png'' [(32, 32)]) = True
   \<and> files (fst (convert_to_ico simple_library world0 ''photo.png'' ''photo.png''
                   [(32, 32)])) ''photo.png'' = Some ''ICOabc''"
  by (simp add: eval_defs)

text \<open>
  Claim C10, amended. Paths are the strings that the code passes on, compared as strings.
  Given a library whose \<^verbatim>\<open>save\<close> changes the file system at no path other than the one
  it is given, the file at every path other than the output path is the same after the
  conversion as before; in particular the file at the input path is the same whenever the
  input path differs from the output path.
\<close>

theorem convert_to_ico_writes_only_output:
  assumes "save_writes_only_its_path lib"
  shows "(\<forall>q. q \<noteq> output_path \<longrightarrow>
            files (fst (convert_to_ico lib w input_path output_path sizes)) q = files w q)
         \<and> (input_path \<noteq> output_path \<longrightarrow>
              files (fst (convert_to_ico lib w input_path output_path sizes)) input_path =
                files w input_path)"
proof -
  have "\<forall>q. q \<noteq> output_path \<longrightarrow>
          files (fst (convert_to_ico lib w input_path output_path sizes)) q = files w q"
  proof (cases rule: convert_to_ico_cases [where lib = lib and w = w
          and input_path = input_path and output_path = output_path and sizes = sizes])
    case (open_raises e)
    then show ?thesis by (simp add: run_simps)
  next
    case (convert_raises img0 e)
    then show ?thesis by (simp add: run_simps)
  next
    case (saves img0 img fs r)
    from assms have "\<forall>q. q \<noteq> output_path \<longrightarrow>
        fst (image_save lib img (files w) output_path ''ICO'' sizes) q = files w q"
      unfolding save_writes_only_its_path_def by blast
    with saves show ?thesis
      by (simp add: convert_to_ico_saves [OF saves])
  qed
  then show ?thesis
    by simp
qed

theorem convert_to_ico_writes_only_output_witness:
  "save_writes_only_its_path simple_library
   \<and> files (fst (convert_to_ico simple_library world0 ''photo.png'' ''icon.ico'' [(32, 32)]))
       ''photo.png'' = Some ''PNGabc''
   \<and> files (fst (convert_to_ico simple_library world0 ''photo.png'' ''icon.ico'' [(32, 32)]))
       ''notes.txt'' = files world0 ''notes.txt''
   \<and> files (fst (convert_to_ico simple_library world0 ''photo.png'' ''icon.ico'' [(32, 32)]))
       ''icon.ico'' = Some ''ICOabc''"
proof -
  have f: "files world0 ''photo.png'' = Some ''PNGabc''"
    by (simp add: world0_def)
  have g: "files (fst (convert_to_ico simple_library world0 ''photo.png'' ''icon.ico''
                         [(32, 32)])) ''icon.ico'' = Some ''ICOabc''"
    by (simp add: eval_defs)
  from f g simple_library_frame
    convert_to_ico_writes_only_output [OF simple_library_frame, of "''icon.ico''" world0
      "''photo.png''" "[(32, 32)]"]
  show ?thesis
    by simp
qed

section \<open>Properties of the button handler\<close>

lemma unticked_selects_nothing:
  assumes "\<forall>p \<in> set sv. \<not> snd p"
  shows "select_sizes False sv = []"
  using assms by (simp add: select_sizes_False filter_empty_conv)

text \<open>
  Claim C3. With an input path entered and an output path returned by the save dialog,
  the handler reaches the size selection. If then the "all sizes" flag is false and every
  size flag is false, the list it produces is empty, and the only thing the handler does
  is to show the warning "Please select at least one icon size.": the world is otherwise
  as before, so the converter is not invoked, no call reaches the image library and no
  file changes.
\<close>

theorem convert_no_size_selected:
  assumes "input_entry f \<noteq> []" and "asksaveasfilename f \<noteq> []"
    and "\<not> all_sizes_var f" and "\<forall>p \<in> set (size_vars f). \<not> snd p"
  shows "select_sizes (all_sizes_var f) (size_vars f) = []
         \<and> convert lib f w =
             w\<lparr>events := events w @
                  [Showwarning ''Warning'' ''Please select at least one icon size.'']\<rparr>
         \<and> \<not> list_ex library_call (new_events w (convert lib f w))
         \<and> files (convert lib f w) = files w"
proof -
  from assms have e: "select_sizes (all_sizes_var f) (size_vars f) = []"
    by (simp add: unticked_selects_nothing)
  with assms(1,2) show ?thesis
    by (simp add: convert_def Let_def log_def new_events_def)
qed

theorem convert_no_size_selected_witness:
  "input_entry form0 = ''photo.png'' \<and> asksaveasfilename form0 = ''icon.ico''
   \<and> \<not> all_sizes_var form0
   \<and> list_all (\<lambda>p. \<not> snd p) (size_vars form0)
   \<and> select_sizes (all_sizes_var form0) (size_vars form0) = []
   \<and> new_events world0 (convert simple_library form0 world0) =
       [Showwarning ''Warning'' ''Please select at least one icon size.'']
   \<and> files (convert simple_library form0 world0) = files world0"
proof -
  have i: "input_entry form0 \<noteq> []" and o: "asksaveasfilename form0 \<noteq> []"
    by (simp_all add: form0_def)
  have a: "\<not> all_sizes_var form0"
    by (simp add: form0_def)
  have b: "\<forall>p \<in> set (size_vars form0). \<not> snd p"
    by (simp add: form0_def initial_size_vars_def icon_sizes_def)
  have c: "input_entry form0 = ''photo.png'' \<and> asksaveasfilename form0 = ''icon.ico''"
    by (simp add: form0_def)
  from a b c convert_no_size_selected [OF i o a b, of simple_library world0]
  show ?thesis
    by (simp add: new_events_def list_all_iff)
qed

text \<open>
  Claim C6, as stated: each of the three validation failures is shown to the user as a
  warning. A missing output path is not: when the save dialog is cancelled the handler
  returns at once and shows nothing.
\<close>

theorem convert_validation_failures_counterexample:
  "input_entry cancelled_form = ''photo.png''
   \<and> asksaveasfilename cancelled_form = []
   \<and> new_events world0 (convert simple_library cancelled_form world0) = []"
  by (simp add: example_defs convert_def Let_def log_def new_events_def)

text \<open>
  Claim C6, amended. The handler checks in this order. A missing input path ends the run
  with the warning "Please select an input file.". With an input path, a missing output
  path ends the run with no message and no other effect. With both paths, an empty size
  selection ends the run with the warning "Please select at least one icon size.". In
  all three cases the world is otherwise unchanged, so the conversion is not started.
\<close>

theorem convert_validation_failures:
  "(input_entry f = [] \<longrightarrow>
      convert lib f w =
        w\<lparr>events := events w @ [Showwarning ''Warning'' ''Please select an input file.'']\<rparr>)
   \<and> (input_entry f \<noteq> [] \<and> asksaveasfilename f = [] \<longrightarrow> convert lib f w = w)
   \<and> (input_entry f \<noteq> [] \<and> asksaveasfilename f \<noteq> []
        \<and> select_sizes (all_sizes_var f) (size_vars f) = [] \<longrightarrow>
      convert lib f w =
        w\<lparr>events := events w @
             [Showwarning ''Warning'' ''Please select at least one icon size.'']\<rparr>)"
  by (simp add: convert_def Let_def log_def)

theorem convert_validation_failures_witness:
  "input_entry no_input_form = []
   \<and> new_events world0 (convert simple_library no_input_form world0) =
       [Showwarning ''Warning'' ''Please select an input file.'']
   \<and> input_entry cancelled_form \<noteq> [] \<and> asksaveasfilename cancelled_form = []
   \<and> convert simple_library cancelled_form world0 = world0
   \<and> input_entry form0 \<noteq> [] \<and> asksaveasfilename form0 \<noteq> []
   \<and> select_sizes (all_sizes_var form0) (size_vars form0) = []
   \<and> new_events world0 (convert simple_library form0 world0) =
       [Showwarning ''Warning'' ''Please select at least one icon size.'']"
proof -
  have a: "input_entry no_input_form = []"
    by (simp add: example_defs)
  have b: "input_entry cancelled_form \<noteq> [] \<and> asksaveasfilename cancelled_form = []"
    by (simp add: example_defs)
  have c: "input_entry form0 \<noteq> [] \<and> asksaveasfilename form0 \<noteq> []
           \<and> select_sizes (all_sizes_var form0) (size_vars form0) = []"
    by (simp add: example_defs select_sizes_def)
  from a b c
    convert_validation_failures [of no_input_form simple_library world0]
    convert_validation_failures [of cancelled_form simple_library world0]
    convert_validation_failures [of form0 simple_library world0]
  show ?thesis
    by (simp add: new_events_def)
qed

end
